theory Spec2Isabelle
  imports Main "HOL-Library.Sublist"
begin

section \<open>Python values handled by \<^verbatim>\<open>utils/gamecontroller.py\<close>\<close>

text \<open>
  Exceptions are values. The constructors are the classes that the calls of the module
  can raise: the builtins, \<^verbatim>\<open>pywintypes.error\<close> (raised by \<^verbatim>\<open>win32gui\<close>), the three
  \<^verbatim>\<open>psutil\<close> errors, and the plain \<^verbatim>\<open>Exception(msg)\<close> that
  \<^verbatim>\<open>set_foreground_window_with_retry\<close> raises itself. All of them derive from
  \<^verbatim>\<open>Exception\<close>, so \<^verbatim>\<open>except Exception\<close> catches every value of this type, while
  \<^verbatim>\<open>except IndexError\<close> catches the first constructor only. Signals that derive from
  \<^verbatim>\<open>BaseException\<close> alone (a keyboard interrupt) are outside the model.
\<close>

datatype py_exc =
    IndexError
  | TypeError
  | ValueError
  | OverflowError
  | OSError
  | WinError
  | NoSuchProcess
  | AccessDenied
  | TimeoutExpired
  | Exception string

text \<open>
  A \<^verbatim>\<open>psutil.Process\<close> object as \<^verbatim>\<open>process_iter(attrs=["pid", "name"])\<close> yields it:
  \<^verbatim>\<open>info["pid"]\<close>, \<^verbatim>\<open>info["name"]\<close> (which \<^verbatim>\<open>psutil\<close> sets to \<^verbatim>\<open>None\<close> when the name
  could not be read), and what its method \<^verbatim>\<open>username()\<close> answers: the owner, usually
  \<^verbatim>\<open>DOMAIN\user\<close>, or an exception.
\<close>

record process =
  pid :: nat
  info_name :: "string option"
  username :: "py_exc + string"

text \<open>The calls into the operating system and its libraries, as they are issued.\<close>

datatype os_call =
    PathExists string
  | System string
  | GetLogin
  | ProcessIter
  | Username nat
  | NewProcess nat
  | Terminate nat
  | Wait nat int
  | FindWindow "string option" string
  | ShowWindow int int
  | SetForegroundWindow int
  | GetClientRect int
  | Sleep int

text \<open>
  The behaviour of the operating system is a parameter: every answer is a function of the
  calls issued so far and of the call's arguments, so two calls with the same arguments can
  be answered differently. The result types follow the libraries:
  \<^item> \<^verbatim>\<open>os.path.exists\<close> answers a boolean and \<^verbatim>\<open>os.system\<close> the exit status of the
    shell (a spawn that fails is a non-zero status); neither raises;
  \<^item> the \<^verbatim>\<open>ctypes\<close> calls into \<^verbatim>\<open>user32\<close> answer an integer;
  \<^item> \<^verbatim>\<open>os.getlogin\<close>, the \<^verbatim>\<open>psutil\<close> calls and the \<^verbatim>\<open>win32gui\<close> calls answer or raise;
  \<^item> \<^verbatim>\<open>sleep\<close> is what the platform does with a sleep of a length that the interpreter
    has accepted: it lets the time pass, or it fails (a length beyond the range of the
    platform's timer is refused with \<^verbatim>\<open>OverflowError\<close> or \<^verbatim>\<open>OSError\<close>).
\<close>

record os_env =
  path_exists :: "os_call list \<Rightarrow> string \<Rightarrow> bool"
  system :: "os_call list \<Rightarrow> string \<Rightarrow> int"
  getlogin :: "os_call list \<Rightarrow> py_exc + string"
  process_iter :: "os_call list \<Rightarrow> py_exc + process list"
  new_process :: "os_call list \<Rightarrow> nat \<Rightarrow> py_exc option"
  proc_terminate :: "os_call list \<Rightarrow> nat \<Rightarrow> py_exc option"
  proc_wait :: "os_call list \<Rightarrow> nat \<Rightarrow> int \<Rightarrow> py_exc option"
  find_window :: "os_call list \<Rightarrow> string option \<Rightarrow> string \<Rightarrow> py_exc + int"
  show_window :: "os_call list \<Rightarrow> int \<Rightarrow> int \<Rightarrow> int"
  set_foreground_window :: "os_call list \<Rightarrow> int \<Rightarrow> int"
  get_client_rect :: "os_call list \<Rightarrow> int \<Rightarrow> py_exc + (int \<times> int \<times> int \<times> int)"
  sleep :: "os_call list \<Rightarrow> int \<Rightarrow> py_exc option"

section \<open>The controller object and the program state\<close>

datatype logger = Logger string

datatype log_level = DEBUG | INFO | WARNING | ERROR

text \<open>
  The messages of the module are formatted strings; a message is kept as its template
  and the values formatted into it.
\<close>

datatype log_msg =
    MsgPathMissing string
  | MsgGameStarted string
  | MsgStartError
  | MsgGameStopped string
  | MsgStopError py_exc
  | MsgWindowNotFound
  | MsgSwitched
  | MsgActivateError py_exc
  | MsgWillAct int string
  | MsgActed string
  | MsgActError string py_exc

record game_controller =
  game_path :: string
  process_name :: string
  window_name :: string
  window_class :: "string option"
  logger :: "logger option"

text \<open>
  The state a method runs in: the object \<^verbatim>\<open>self\<close>, the calls issued so far, and the
  records handed to the logging sink.
\<close>

record state =
  self :: game_controller
  trace :: "os_call list"
  logs :: "(logger \<times> log_level \<times> log_msg) list"

type_synonym 'a prog = "state \<Rightarrow> (py_exc + 'a) \<times> state"

definition returnE :: "'a \<Rightarrow> 'a prog" where
  "returnE x = (\<lambda>s. (Inr x, s))"

definition raiseE :: "py_exc \<Rightarrow> 'a prog" where
  "raiseE e = (\<lambda>s. (Inl e, s))"

definition bindE :: "'a prog \<Rightarrow> ('a \<Rightarrow> 'b prog) \<Rightarrow> 'b prog" where
  "bindE m f = (\<lambda>s. case m s of (Inl e, s') \<Rightarrow> (Inl e, s') | (Inr x, s') \<Rightarrow> f x s')"

definition thenE :: "'a prog \<Rightarrow> 'b prog \<Rightarrow> 'b prog" where
  "thenE m k = bindE m (\<lambda>_. k)"

text \<open>\<^verbatim>\<open>try: m except C as e: h e\<close>, where \<open>catches\<close> tells the exceptions of class \<^verbatim>\<open>C\<close>.\<close>

definition try_except :: "'a prog \<Rightarrow> (py_exc \<Rightarrow> bool) \<Rightarrow> (py_exc \<Rightarrow> 'a prog) \<Rightarrow> 'a prog" where
  "try_except m catches h =
     (\<lambda>s. case m s of
        (Inl e, s') \<Rightarrow> if catches e then h e s' else (Inl e, s')
      | (Inr x, s') \<Rightarrow> (Inr x, s'))"

definition except_Exception :: "py_exc \<Rightarrow> bool" where
  "except_Exception e = True"

definition except_IndexError :: "py_exc \<Rightarrow> bool" where
  "except_IndexError e = (e = IndexError)"

text \<open>Reading a field of \<^verbatim>\<open>self\<close>, and recording a call as issued.\<close>

definition getattr :: "(game_controller \<Rightarrow> 'a) \<Rightarrow> 'a prog" where
  "getattr field = (\<lambda>s. (Inr (field (self s)), s))"

definition issue :: "os_call \<Rightarrow> state \<Rightarrow> state" where
  "issue c s = s\<lparr>trace := trace s @ [c]\<rparr>"

subsection \<open>The calls\<close>

text \<open>
  Every call is recorded when it is issued, whether it answers or raises.
  \<^verbatim>\<open>process_iter\<close> is a generator; the model takes the processes it will yield as one
  list. The methods \<^verbatim>\<open>psutil.Process(pid)\<close>, \<^verbatim>\<open>terminate()\<close> and \<^verbatim>\<open>wait(timeout)\<close>
  return nothing or raise.
\<close>

definition os_path_exists :: "os_env \<Rightarrow> string \<Rightarrow> bool prog" where
  "os_path_exists os p = (\<lambda>s. (Inr (path_exists os (trace s) p), issue (PathExists p) s))"

definition os_system :: "os_env \<Rightarrow> string \<Rightarrow> int prog" where
  "os_system os cmd = (\<lambda>s. (Inr (system os (trace s) cmd), issue (System cmd) s))"

definition os_getlogin :: "os_env \<Rightarrow> string prog" where
  "os_getlogin os = (\<lambda>s. (getlogin os (trace s), issue GetLogin s))"

definition psutil_process_iter :: "os_env \<Rightarrow> process list prog" where
  "psutil_process_iter os = (\<lambda>s. (process_iter os (trace s), issue ProcessIter s))"

definition process_username :: "process \<Rightarrow> string prog" where
  "process_username p = (\<lambda>s. (username p, issue (Username (pid p)) s))"

definition unit_result :: "py_exc option \<Rightarrow> py_exc + unit" where
  "unit_result r = (case r of None \<Rightarrow> Inr () | Some e \<Rightarrow> Inl e)"

definition psutil_Process :: "os_env \<Rightarrow> nat \<Rightarrow> unit prog" where
  "psutil_Process os p = (\<lambda>s. (unit_result (new_process os (trace s) p), issue (NewProcess p) s))"

definition Process_terminate :: "os_env \<Rightarrow> nat \<Rightarrow> unit prog" where
  "Process_terminate os p =
     (\<lambda>s. (unit_result (proc_terminate os (trace s) p), issue (Terminate p) s))"

definition Process_wait :: "os_env \<Rightarrow> nat \<Rightarrow> int \<Rightarrow> unit prog" where
  "Process_wait os p timeout =
     (\<lambda>s. (unit_result (proc_wait os (trace s) p timeout), issue (Wait p timeout) s))"

definition win32gui_FindWindow :: "os_env \<Rightarrow> string option \<Rightarrow> string \<Rightarrow> int prog" where
  "win32gui_FindWindow os cls title =
     (\<lambda>s. (find_window os (trace s) cls title, issue (FindWindow cls title) s))"

definition user32_ShowWindow :: "os_env \<Rightarrow> int \<Rightarrow> int \<Rightarrow> int prog" where
  "user32_ShowWindow os hwnd st =
     (\<lambda>s. (Inr (show_window os (trace s) hwnd st), issue (ShowWindow hwnd st) s))"

definition user32_SetForegroundWindow :: "os_env \<Rightarrow> int \<Rightarrow> int prog" where
  "user32_SetForegroundWindow os hwnd =
     (\<lambda>s. (Inr (set_foreground_window os (trace s) hwnd), issue (SetForegroundWindow hwnd) s))"

definition win32gui_GetClientRect :: "os_env \<Rightarrow> int \<Rightarrow> (int \<times> int \<times> int \<times> int) prog" where
  "win32gui_GetClientRect os hwnd =
     (\<lambda>s. (get_client_rect os (trace s) hwnd, issue (GetClientRect hwnd) s))"

text \<open>
  \<^verbatim>\<open>time.sleep\<close> on an integer. The interpreter first converts the length to nanoseconds
  in a signed 64-bit integer and raises \<^verbatim>\<open>OverflowError\<close> when it does not fit, which is
  beyond 9223372036 seconds in either direction; it then raises \<^verbatim>\<open>ValueError\<close> on a
  negative length; what is left is handed to the platform.
\<close>

definition pytime_max :: int where
  "pytime_max = 9223372036"

definition time_sleep :: "os_env \<Rightarrow> int \<Rightarrow> unit prog" where
  "time_sleep os secs =
     (\<lambda>s. (if secs < - pytime_max \<or> pytime_max < secs then Inl OverflowError
           else if secs < 0 then Inl ValueError
           else unit_result (sleep os (trace s) secs),
           issue (Sleep secs) s))"

subsection \<open>Strings\<close>

text \<open>\<^verbatim>\<open>sub in s\<close> on strings: \<open>sub\<close> occurs in \<open>s\<close> as a contiguous piece.\<close>

fun str_contains :: "string \<Rightarrow> string \<Rightarrow> bool" where
  "str_contains sub [] = (sub = [])"
| "str_contains sub (c # cs) = (prefix sub (c # cs) \<or> str_contains sub cs)"

text \<open>\<^verbatim>\<open>s.split(sep)\<close> for a separator of one character.\<close>

fun str_split :: "char \<Rightarrow> string \<Rightarrow> string list" where
  "str_split sep [] = [[]]"
| "str_split sep (c # cs) =
     (if c = sep then [] # str_split sep cs
      else (case str_split sep cs of
              [] \<Rightarrow> [[c]]
            | w # ws \<Rightarrow> (c # w) # ws))"

text \<open>\<^verbatim>\<open>xs[-1]\<close>, which raises \<^verbatim>\<open>IndexError\<close> on an empty list.\<close>

definition index_last :: "'a list \<Rightarrow> 'a prog" where
  "index_last xs = (case xs of [] \<Rightarrow> raiseE IndexError | _ \<Rightarrow> returnE (last xs))"

definition backslash :: char where
  "backslash = CHR 0x5C"

definition dquote :: char where
  "dquote = CHR 0x22"

section \<open>The class \<^verbatim>\<open>GameController\<close>\<close>

text \<open>
  \<^verbatim>\<open>__init__\<close>. \<^verbatim>\<open>os.path.normpath\<close> is a library function; it is the parameter
  \<open>normpath\<close>.
\<close>

definition init ::
  "(string \<Rightarrow> string) \<Rightarrow> string \<Rightarrow> string \<Rightarrow> string \<Rightarrow> string option \<Rightarrow> logger option
     \<Rightarrow> game_controller" where
  "init normpath gp pn wn wc lg =
     \<lparr>game_path = normpath gp, process_name = pn, window_name = wn, window_class = wc,
      logger = lg\<rparr>"

definition log_to :: "log_level \<Rightarrow> log_msg \<Rightarrow> unit prog" where
  "log_to lvl msg =
     (\<lambda>s. (Inr (), case logger (self s) of
                      None \<Rightarrow> s
                    | Some l \<Rightarrow> s\<lparr>logs := logs s @ [(l, lvl, msg)]\<rparr>))"

definition log_debug :: "log_msg \<Rightarrow> unit prog" where
  "log_debug msg = log_to DEBUG msg"

definition log_info :: "log_msg \<Rightarrow> unit prog" where
  "log_info msg = log_to INFO msg"

definition log_error :: "log_msg \<Rightarrow> unit prog" where
  "log_error msg = log_to ERROR msg"

definition log_warning :: "log_msg \<Rightarrow> unit prog" where
  "log_warning msg = log_to WARNING msg"

text \<open>The command line \<^verbatim>\<open>cmd /C start "" "{game_path}"\<close>.\<close>

definition start_command :: "string \<Rightarrow> string" where
  "start_command gp = ''cmd /C start '' @ [dquote, dquote] @ '' '' @ [dquote] @ gp @ [dquote]"

definition start_game :: "os_env \<Rightarrow> bool prog" where
  "start_game os =
     bindE (getattr game_path) (\<lambda>gp.
     bindE (os_path_exists os gp) (\<lambda>ex.
       if \<not> ex then thenE (log_error (MsgPathMissing gp)) (returnE False)
       else
         bindE (os_system os (start_command gp)) (\<lambda>status.
           if status = 0 then thenE (log_info (MsgGameStarted gp)) (returnE True)
           else thenE (log_error MsgStartError) (returnE False))))"

text \<open>
  The body of the loop of \<^verbatim>\<open>terminate_named_process\<close> for one process. On a process
  whose name is \<^verbatim>\<open>None\<close> the test \<^verbatim>\<open>target_process_name in None\<close> raises
  \<^verbatim>\<open>TypeError\<close>.
\<close>

definition terminate_step :: "os_env \<Rightarrow> string \<Rightarrow> string \<Rightarrow> int \<Rightarrow> process \<Rightarrow> unit prog" where
  "terminate_step os system_username target_process_name termination_timeout p =
     (case info_name p of
        None \<Rightarrow> raiseE TypeError
      | Some name \<Rightarrow>
          if str_contains target_process_name name then
            bindE (process_username p) (\<lambda>owner.
            bindE (index_last (str_split backslash owner)) (\<lambda>process_username.
              if system_username = process_username then
                thenE (psutil_Process os (pid p))
               (thenE (Process_terminate os (pid p))
                      (Process_wait os (pid p) termination_timeout))
              else returnE ()))
          else returnE ())"

fun terminate_loop :: "os_env \<Rightarrow> string \<Rightarrow> string \<Rightarrow> int \<Rightarrow> process list \<Rightarrow> unit prog" where
  "terminate_loop os system_username target timeout [] = returnE ()"
| "terminate_loop os system_username target timeout (p # ps) =
     thenE (terminate_step os system_username target timeout p)
           (terminate_loop os system_username target timeout ps)"

definition terminate_named_process :: "os_env \<Rightarrow> string \<Rightarrow> int \<Rightarrow> unit prog" where
  "terminate_named_process os target_process_name termination_timeout =
     bindE (os_getlogin os) (\<lambda>system_username.
     bindE (psutil_process_iter os) (\<lambda>procs.
       terminate_loop os system_username target_process_name termination_timeout procs))"

definition stop_game :: "os_env \<Rightarrow> bool prog" where
  "stop_game os =
     try_except
       (bindE (getattr process_name) (\<lambda>pn.
        thenE (terminate_named_process os pn 10)
       (thenE (log_info (MsgGameStopped pn))
              (returnE True))))
       except_Exception
       (\<lambda>e. thenE (log_error (MsgStopError e)) (returnE False))"

definition SW_MINIMIZE :: int where
  "SW_MINIMIZE = 6"

definition SW_RESTORE :: int where
  "SW_RESTORE = 9"

definition toggle_window_state :: "os_env \<Rightarrow> int \<Rightarrow> bool \<Rightarrow> unit prog" where
  "toggle_window_state os hwnd minimize =
     thenE (user32_ShowWindow os hwnd (if minimize then SW_MINIMIZE else SW_RESTORE))
           (returnE ())"

definition set_foreground_window_with_retry :: "os_env \<Rightarrow> int \<Rightarrow> unit prog" where
  "set_foreground_window_with_retry os hwnd =
     thenE (toggle_window_state os hwnd False)
    (bindE (user32_SetForegroundWindow os hwnd) (\<lambda>r1.
       if r1 = 0 then
         thenE (toggle_window_state os hwnd True)
        (thenE (toggle_window_state os hwnd False)
        (bindE (user32_SetForegroundWindow os hwnd) (\<lambda>r2.
           if r2 = 0 then raiseE (Exception ''Failed to set window foreground'')
           else returnE ())))
       else returnE ()))"

definition switch_to_game :: "os_env \<Rightarrow> bool prog" where
  "switch_to_game os =
     try_except
       (bindE (getattr window_class) (\<lambda>wc.
        bindE (getattr window_name) (\<lambda>wn.
        bindE (win32gui_FindWindow os wc wn) (\<lambda>hwnd.
          if hwnd = 0 then thenE (log_debug MsgWindowNotFound) (returnE False)
          else
            thenE (set_foreground_window_with_retry os hwnd)
           (thenE (log_info MsgSwitched)
                  (returnE True))))))
       except_Exception
       (\<lambda>e. thenE (log_error (MsgActivateError e)) (returnE False))"

definition get_resolution :: "os_env \<Rightarrow> (int \<times> int) option prog" where
  "get_resolution os =
     try_except
       (bindE (getattr window_class) (\<lambda>wc.
        bindE (getattr window_name) (\<lambda>wn.
        bindE (win32gui_FindWindow os wc wn) (\<lambda>hwnd.
          if hwnd = 0 then thenE (log_debug MsgWindowNotFound) (returnE None)
          else
            bindE (win32gui_GetClientRect os hwnd) (\<lambda>(_, _, window_width, window_height).
              returnE (Some (window_width, window_height)))))))
       except_IndexError
       (\<lambda>e. thenE (log_debug MsgWindowNotFound) (returnE None))"

text \<open>
  The \<^verbatim>\<open>if\<close>/\<^verbatim>\<open>elif\<close> chain inside the \<^verbatim>\<open>try\<close> of \<^verbatim>\<open>shutdown\<close>; the exit status
  of each command is dropped. The action is any string: the annotation
  \<^verbatim>\<open>Literal[...]\<close> is not checked when the program runs.
\<close>

definition power_commands :: "os_env \<Rightarrow> string \<Rightarrow> unit prog" where
  "power_commands os action =
     (if action = ''Shutdown'' then
        thenE (os_system os ''shutdown /s /t 0'') (returnE ())
      else if action = ''Sleep'' then
        thenE (os_system os ''powercfg -h off'')
       (thenE (os_system os ''rundll32.exe powrprof.dll,SetSuspendState 0,1,0'')
       (thenE (os_system os ''powercfg -h on'')
              (returnE ())))
      else if action = ''Hibernate'' then
        thenE (os_system os ''shutdown /h'') (returnE ())
      else returnE ())"

definition shutdown :: "os_env \<Rightarrow> string \<Rightarrow> int \<Rightarrow> bool prog" where
  "shutdown os action delay =
     thenE (stop_game os)
       (if action \<notin> set [''Shutdown'', ''Hibernate'', ''Sleep''] then returnE True
        else
          thenE (log_warning (MsgWillAct delay action))
         (thenE (time_sleep os delay)
         (try_except
            (thenE (power_commands os action)
            (thenE (log_info (MsgActed action))
                   (returnE True)))
            except_Exception
            (\<lambda>e. thenE (log_error (MsgActError action e)) (returnE False)))))"

section \<open>A logging sink that may fail\<close>

text \<open>
  The log helpers above are those of a sink whose methods return: the standard handlers of
  \<^verbatim>\<open>logging\<close> report their own failures and return. A handler whose \<^verbatim>\<open>emit\<close> raises makes
  \<^verbatim>\<open>debug\<close>, \<^verbatim>\<open>info\<close>, \<^verbatim>\<open>warning\<close> and \<^verbatim>\<open>error\<close> raise. Here the behaviour of the
  sink is a parameter: given the records handed over so far, the logger, the level and the
  message, it tells whether the call returns or which exception it raises. The operations
  are those of the class again, with these helpers.
\<close>

type_synonym sink =
  "(logger \<times> log_level \<times> log_msg) list \<Rightarrow> logger \<Rightarrow> log_level \<Rightarrow> log_msg \<Rightarrow> py_exc option"

definition log_to_with :: "sink \<Rightarrow> log_level \<Rightarrow> log_msg \<Rightarrow> unit prog" where
  "log_to_with sk lvl msg =
     (\<lambda>s. case logger (self s) of
            None \<Rightarrow> (Inr (), s)
          | Some l \<Rightarrow> (unit_result (sk (logs s) l lvl msg), s\<lparr>logs := logs s @ [(l, lvl, msg)]\<rparr>))"

definition log_debug_with :: "sink \<Rightarrow> log_msg \<Rightarrow> unit prog" where
  "log_debug_with sk msg = log_to_with sk DEBUG msg"

definition log_info_with :: "sink \<Rightarrow> log_msg \<Rightarrow> unit prog" where
  "log_info_with sk msg = log_to_with sk INFO msg"

definition log_error_with :: "sink \<Rightarrow> log_msg \<Rightarrow> unit prog" where
  "log_error_with sk msg = log_to_with sk ERROR msg"

definition log_warning_with :: "sink \<Rightarrow> log_msg \<Rightarrow> unit prog" where
  "log_warning_with sk msg = log_to_with sk WARNING msg"

definition start_game_with :: "sink \<Rightarrow> os_env \<Rightarrow> bool prog" where
  "start_game_with sk os =
     bindE (getattr game_path) (\<lambda>gp.
     bindE (os_path_exists os gp) (\<lambda>ex.
       if \<not> ex then thenE (log_error_with sk (MsgPathMissing gp)) (returnE False)
       else
         bindE (os_system os (start_command gp)) (\<lambda>status.
           if status = 0 then thenE (log_info_with sk (MsgGameStarted gp)) (returnE True)
           else thenE (log_error_with sk MsgStartError) (returnE False))))"

definition stop_game_with :: "sink \<Rightarrow> os_env \<Rightarrow> bool prog" where
  "stop_game_with sk os =
     try_except
       (bindE (getattr process_name) (\<lambda>pn.
        thenE (terminate_named_process os pn 10)
       (thenE (log_info_with sk (MsgGameStopped pn))
              (returnE True))))
       except_Exception
       (\<lambda>e. thenE (log_error_with sk (MsgStopError e)) (returnE False))"

definition switch_to_game_with :: "sink \<Rightarrow> os_env \<Rightarrow> bool prog" where
  "switch_to_game_with sk os =
     try_except
       (bindE (getattr window_class) (\<lambda>wc.
        bindE (getattr window_name) (\<lambda>wn.
        bindE (win32gui_FindWindow os wc wn) (\<lambda>hwnd.
          if hwnd = 0 then thenE (log_debug_with sk MsgWindowNotFound) (returnE False)
          else
            thenE (set_foreground_window_with_retry os hwnd)
           (thenE (log_info_with sk MsgSwitched)
                  (returnE True))))))
       except_Exception
       (\<lambda>e. thenE (log_error_with sk (MsgActivateError e)) (returnE False))"

definition get_resolution_with :: "sink \<Rightarrow> os_env \<Rightarrow> (int \<times> int) option prog" where
  "get_resolution_with sk os =
     try_except
       (bindE (getattr window_class) (\<lambda>wc.
        bindE (getattr window_name) (\<lambda>wn.
        bindE (win32gui_FindWindow os wc wn) (\<lambda>hwnd.
          if hwnd = 0 then thenE (log_debug_with sk MsgWindowNotFound) (returnE None)
          else
            bindE (win32gui_GetClientRect os hwnd) (\<lambda>(_, _, window_width, window_height).
              returnE (Some (window_width, window_height)))))))
       except_IndexError
       (\<lambda>e. thenE (log_debug_with sk MsgWindowNotFound) (returnE None))"

definition shutdown_with :: "sink \<Rightarrow> os_env \<Rightarrow> string \<Rightarrow> int \<Rightarrow> bool prog" where
  "shutdown_with sk os action delay =
     thenE (stop_game_with sk os)
       (if action \<notin> set [''Shutdown'', ''Hibernate'', ''Sleep''] then returnE True
        else
          thenE (log_warning_with sk (MsgWillAct delay action))
         (thenE (time_sleep os delay)
         (try_except
            (thenE (power_commands os action)
            (thenE (log_info_with sk (MsgActed action))
                   (returnE True)))
            except_Exception
            (\<lambda>e. thenE (log_error_with sk (MsgActError action e)) (returnE False)))))"

text \<open>A sink whose methods return, and one whose handler cannot write.\<close>

definition returning_sink :: sink where
  "returning_sink = (\<lambda>h l lvl msg. None)"

definition failing_sink :: sink where
  "failing_sink = (\<lambda>h l lvl msg. Some OSError)"

section \<open>Notions used to state the properties\<close>

text \<open>The process ids that \<^verbatim>\<open>terminate()\<close> was called on, in the order of the calls.\<close>

fun signalled :: "os_call list \<Rightarrow> nat list" where
  "signalled [] = []"
| "signalled (Terminate p # cs) = p # signalled cs"
| "signalled (c # cs) = signalled cs"

text \<open>
  The owner name with any domain prefix stripped: what follows the last backslash, the
  whole name when there is none.
\<close>

definition strip_domain :: "string \<Rightarrow> string" where
  "strip_domain owner = rev (takeWhile (\<lambda>c. c \<noteq> backslash) (rev owner))"

text \<open>
  The two predicates of the termination policy: the process name contains the target, and
  the resolved owner is the login name.
\<close>

definition should_terminate :: "string \<Rightarrow> string \<Rightarrow> process \<Rightarrow> bool" where
  "should_terminate login target p =
     (case info_name p of
        None \<Rightarrow> False
      | Some name \<Rightarrow>
          str_contains target name \<and>
          (case username p of Inl e \<Rightarrow> False | Inr owner \<Rightarrow> strip_domain owner = login))"

text \<open>The process has a name, and the name does not contain the target.\<close>

definition name_differs :: "string \<Rightarrow> process \<Rightarrow> bool" where
  "name_differs target p =
     (case info_name p of None \<Rightarrow> False | Some name \<Rightarrow> \<not> str_contains target name)"

definition identity :: "game_controller \<Rightarrow> string \<times> string \<times> string \<times> string option" where
  "identity c = (game_path c, process_name c, window_name c, window_class c)"

text \<open>Two states of runs that differ in the logging sink (and in what was logged) only.\<close>

definition same_but_logger :: "state \<Rightarrow> state \<Rightarrow> bool" where
  "same_but_logger s1 s2 = (trace s1 = trace s2 \<and> identity (self s1) = identity (self s2))"

subsection \<open>Concrete hosts\<close>

text \<open>
  A host with no process of interest, no game window and no executable at the bound path;
  the other hosts differ from it in the answers named.
\<close>

definition quiet_os :: os_env where
  "quiet_os =
     \<lparr>path_exists = (\<lambda>t p. False),
      system = (\<lambda>t cmd. 0),
      getlogin = (\<lambda>t. Inr ''alice''),
      process_iter = (\<lambda>t. Inr []),
      new_process = (\<lambda>t p. None),
      proc_terminate = (\<lambda>t p. None),
      proc_wait = (\<lambda>t p timeout. None),
      find_window = (\<lambda>t cls title. Inr 0),
      show_window = (\<lambda>t hwnd st. 1),
      set_foreground_window = (\<lambda>t hwnd. 1),
      get_client_rect = (\<lambda>t hwnd. Inr (0, 0, 1920, 1080)),
      sleep = (\<lambda>t secs. None)\<rparr>"

definition game_procs :: "process list" where
  "game_procs =
     [\<lparr>pid = 1, info_name = Some ''StarRail.exe'',
       username = Inr (''DESKTOP'' @ [backslash] @ ''alice'')\<rparr>,
      \<lparr>pid = 2, info_name = Some ''explorer.exe'', username = Inr ''alice''\<rparr>,
      \<lparr>pid = 3, info_name = Some ''StarRail.exe'', username = Inr ''bob''\<rparr>,
      \<lparr>pid = 4, info_name = Some ''StarRail.exe'', username = Inr ''alice''\<rparr>]"

definition other_procs :: "process list" where
  "other_procs =
     [\<lparr>pid = 2, info_name = Some ''explorer.exe'', username = Inr ''alice''\<rparr>,
      \<lparr>pid = 7, info_name = Some ''svchost.exe'', username = Inl AccessDenied\<rparr>]"

definition two_games_os :: os_env where
  "two_games_os = quiet_os\<lparr>process_iter := (\<lambda>t. Inr game_procs)\<rparr>"

definition no_game_os :: os_env where
  "no_game_os = quiet_os\<lparr>process_iter := (\<lambda>t. Inr other_procs)\<rparr>"

text \<open>Process 1 does not exit within the timeout.\<close>

definition slow_exit_os :: os_env where
  "slow_exit_os =
     two_games_os\<lparr>proc_wait := (\<lambda>t p timeout. if p = 1 then Some TimeoutExpired else None)\<rparr>"

text \<open>The window lookup itself raises.\<close>

definition lookup_fails_os :: os_env where
  "lookup_fails_os = quiet_os\<lparr>find_window := (\<lambda>t cls title. Inl WinError)\<rparr>"

text \<open>The executable is there; the shell starts it, or reports a failure.\<close>

definition installed_os :: os_env where
  "installed_os = quiet_os\<lparr>path_exists := (\<lambda>t p. True)\<rparr>"

definition spawn_fails_os :: os_env where
  "spawn_fails_os = installed_os\<lparr>system := (\<lambda>t cmd. 1)\<rparr>"

text \<open>The window is found, and is gone when its geometry is asked for.\<close>

definition closed_window_os :: os_env where
  "closed_window_os =
     quiet_os\<lparr>find_window := (\<lambda>t cls title. Inr 42),
              get_client_rect := (\<lambda>t hwnd. Inl WinError)\<rparr>"

text \<open>The first focus request for a window is refused, every later one is granted.\<close>

definition focus_retry_os :: os_env where
  "focus_retry_os =
     quiet_os\<lparr>find_window := (\<lambda>t cls title. Inr 42),
              set_foreground_window :=
                (\<lambda>t hwnd. if SetForegroundWindow hwnd \<in> set t then 1 else 0)\<rparr>"

definition demo_controller :: game_controller where
  "demo_controller =
     init (\<lambda>p. p) ''StarRail.exe'' ''StarRail.exe'' ''StarRail'' (Some ''UnityWndClass'') None"

definition logged_controller :: game_controller where
  "logged_controller = demo_controller\<lparr>logger := Some (Logger ''m7a'')\<rparr>"

definition fresh :: "game_controller \<Rightarrow> state" where
  "fresh c = \<lparr>self = c, trace = [], logs = []\<rparr>"

section \<open>Basic facts\<close>

lemmas prog_defs = returnE_def raiseE_def bindE_def thenE_def try_except_def getattr_def
  except_Exception_def except_IndexError_def

lemmas call_defs = os_path_exists_def os_system_def os_getlogin_def psutil_process_iter_def
  process_username_def psutil_Process_def Process_terminate_def Process_wait_def
  win32gui_FindWindow_def user32_ShowWindow_def user32_SetForegroundWindow_def
  win32gui_GetClientRect_def time_sleep_def issue_def unit_result_def

lemmas log_defs = log_to_def log_debug_def log_info_def log_error_def log_warning_def

lemmas log_with_defs = log_to_with_def log_debug_with_def log_info_with_def log_error_with_def
  log_warning_with_def

lemmas op_with_defs = start_game_with_def stop_game_with_def switch_to_game_with_def
  get_resolution_with_def shutdown_with_def

lemmas op_defs = start_game_def stop_game_def switch_to_game_def get_resolution_def shutdown_def
  terminate_named_process_def terminate_step_def set_foreground_window_with_retry_def
  toggle_window_state_def power_commands_def index_last_def

lemmas demo_defs = quiet_os_def game_procs_def other_procs_def two_games_os_def no_game_os_def
  slow_exit_os_def lookup_fails_os_def installed_os_def spawn_fails_os_def closed_window_os_def focus_retry_os_def demo_controller_def
  logged_controller_def returning_sink_def failing_sink_def fresh_def init_def backslash_def dquote_def SW_MINIMIZE_def SW_RESTORE_def pytime_max_def
  start_command_def

subsection \<open>Strings\<close>

lemma str_contains_sublist: "str_contains sub s = sublist sub s"
  by (induction s) (auto simp: sublist_Cons_right)

lemma str_split_nonempty: "str_split sep u \<noteq> []"
  by (induction u) (auto split: list.splits)

lemma str_split_no_sep: "sep \<notin> set u \<Longrightarrow> str_split sep u = [u]"
  by (induction u) auto

lemma str_split_first_sep:
  "sep \<notin> set u \<Longrightarrow> str_split sep (u @ sep # v) = u # str_split sep v"
  by (induction u) auto

text \<open>The last piece of a split is what follows the last separator.\<close>

lemma last_str_split:
  "last (str_split sep u) = rev (takeWhile (\<lambda>c. c \<noteq> sep) (rev u))"
proof (induction u)
  case Nil
  show ?case by simp
next
  case (Cons c cs)
  show ?case
  proof (cases "sep \<in> set cs")
    case True
    then obtain u v where cs: "cs = u @ sep # v" and u: "sep \<notin> set u"
      by (meson split_list_first)
    have tl: "str_split sep cs = u # str_split sep v"
      using str_split_first_sep[OF u] cs by simp
    have "last (str_split sep (c # cs)) = last (str_split sep cs)"
      using str_split_nonempty[of sep v] str_split_nonempty[of sep cs]
      by (simp add: tl)
    moreover have "takeWhile (\<lambda>c. c \<noteq> sep) (rev cs @ [c]) = takeWhile (\<lambda>c. c \<noteq> sep) (rev cs)"
      using True by (intro takeWhile_append1[of sep]) auto
    ultimately show ?thesis
      using Cons.IH by simp
  next
    case False
    then have tw: "takeWhile (\<lambda>c. c \<noteq> sep) (rev cs @ [c]) =
        rev cs @ takeWhile (\<lambda>c. c \<noteq> sep) [c]"
      by (intro takeWhile_append2) auto
    show ?thesis
      using False by (simp add: str_split_no_sep tw)
  qed
qed

lemma index_last_split: "index_last (str_split backslash u) s = (Inr (strip_domain u), s)"
proof -
  have "index_last (str_split backslash u) s = (Inr (last (str_split backslash u)), s)"
    using str_split_nonempty[of backslash u]
    by (auto simp: index_last_def returnE_def split: list.splits)
  then show ?thesis
    by (simp add: strip_domain_def last_str_split)
qed

subsection \<open>Logging\<close>

lemma trace_log_to: "trace (snd (log_to lvl m s)) = trace s"
  by (simp add: log_to_def split: option.splits)

lemma self_log_to: "self (snd (log_to lvl m s)) = self s"
  by (simp add: log_to_def split: option.splits)

subsection \<open>The termination loop\<close>

lemma signalled_append: "signalled (xs @ ys) = signalled xs @ signalled ys"
  by (induction xs rule: signalled.induct) auto

lemma terminate_step_keeps:
  "self (snd (terminate_step os l t tmo p s)) = self s \<and>
   logs (snd (terminate_step os l t tmo p s)) = logs s"
  unfolding terminate_step_def
  by (auto simp: prog_defs call_defs index_last_split split: option.splits sum.splits prod.splits)

lemma terminate_step_trace_only:
  assumes "trace s1 = trace s2"
  shows "fst (terminate_step os l t tmo p s1) = fst (terminate_step os l t tmo p s2) \<and>
         trace (snd (terminate_step os l t tmo p s1)) = trace (snd (terminate_step os l t tmo p s2))"
  using assms unfolding terminate_step_def
  by (auto simp: prog_defs call_defs index_last_split split: option.splits sum.splits prod.splits)

lemma terminate_loop_step:
  "terminate_loop os l t tmo (p # ps) s =
     (case fst (terminate_step os l t tmo p s) of
        Inl e \<Rightarrow> (Inl e, snd (terminate_step os l t tmo p s))
      | Inr u \<Rightarrow> terminate_loop os l t tmo ps (snd (terminate_step os l t tmo p s)))"
  by (cases "terminate_step os l t tmo p s") (simp add: thenE_def bindE_def split: sum.splits)

lemma terminate_loop_keeps:
  "self (snd (terminate_loop os l t tmo ps s)) = self s \<and>
   logs (snd (terminate_loop os l t tmo ps s)) = logs s"
proof (induction ps arbitrary: s)
  case Nil
  show ?case by (simp add: returnE_def)
next
  case (Cons p ps)
  show ?case
    by (simp add: terminate_loop_step terminate_step_keeps Cons.IH
          del: terminate_loop.simps split: sum.splits)
qed

lemma terminate_loop_trace_only:
  assumes "trace s1 = trace s2"
  shows "fst (terminate_loop os l t tmo ps s1) = fst (terminate_loop os l t tmo ps s2) \<and>
         trace (snd (terminate_loop os l t tmo ps s1)) = trace (snd (terminate_loop os l t tmo ps s2))"
  using assms
proof (induction ps arbitrary: s1 s2)
  case Nil
  then show ?case by (simp add: returnE_def)
next
  case (Cons p ps)
  from terminate_step_trace_only[OF Cons.prems, of os l t tmo p]
  have st: "fst (terminate_step os l t tmo p s1) = fst (terminate_step os l t tmo p s2)"
    and tr: "trace (snd (terminate_step os l t tmo p s1)) = trace (snd (terminate_step os l t tmo p s2))"
    by simp_all
  show ?case
    using Cons.IH[OF tr] tr
    by (simp add: terminate_loop_step st del: terminate_loop.simps split: sum.splits)
qed

text \<open>
  One turn of the loop calls \<^verbatim>\<open>terminate()\<close> at most once, and only on a process that
  satisfies both predicates; a turn that raises nothing has called it on such a process.
\<close>

lemma terminate_step_signalled:
  "\<exists>k. signalled (trace (snd (terminate_step os l t tmo p s))) = signalled (trace s) @ k \<and>
       prefix k (if should_terminate l t p then [pid p] else []) \<and>
       (fst (terminate_step os l t tmo p s) = Inr () \<longrightarrow>
          k = (if should_terminate l t p then [pid p] else []))"
  unfolding terminate_step_def should_terminate_def
  by (auto simp: prog_defs call_defs index_last_split signalled_append
           split: option.splits sum.splits prod.splits)

lemma terminate_loop_signalled:
  "\<exists>ks. signalled (trace (snd (terminate_loop os l t tmo ps s))) = signalled (trace s) @ ks \<and>
        prefix ks (map pid (filter (should_terminate l t) ps)) \<and>
        (fst (terminate_loop os l t tmo ps s) = Inr () \<longrightarrow>
           ks = map pid (filter (should_terminate l t) ps))"
proof (induction ps arbitrary: s)
  case Nil
  show ?case by (simp add: returnE_def)
next
  case (Cons p ps)
  let ?r = "terminate_step os l t tmo p s"
  obtain k where k: "signalled (trace (snd ?r)) = signalled (trace s) @ k"
      "prefix k (if should_terminate l t p then [pid p] else [])"
      "fst ?r = Inr () \<longrightarrow> k = (if should_terminate l t p then [pid p] else [])"
    using terminate_step_signalled[of os l t tmo p s] by blast
  show ?case
  proof (cases "fst ?r")
    case (Inl e)
    then have "terminate_loop os l t tmo (p # ps) s = (Inl e, snd ?r)"
      by (cases ?r) (simp add: thenE_def bindE_def)
    moreover have "prefix k (map pid (filter (should_terminate l t) (p # ps)))"
    proof (cases "should_terminate l t p")
      case True
      with k(2) have "prefix k [pid p]" by simp
      moreover have "prefix [pid p] (pid p # map pid (filter (should_terminate l t) ps))"
        by simp
      ultimately have "prefix k (pid p # map pid (filter (should_terminate l t) ps))"
        by (rule prefix_order.trans)
      with True show ?thesis by simp
    next
      case False
      with k(2) show ?thesis by simp
    qed
    ultimately show ?thesis
      using k(1) by auto
  next
    case (Inr u)
    then have step: "terminate_loop os l t tmo (p # ps) s = terminate_loop os l t tmo ps (snd ?r)"
      by (cases ?r) (simp add: thenE_def bindE_def)
    from Inr k have keq: "k = (if should_terminate l t p then [pid p] else [])" by simp
    obtain ks where ks: "signalled (trace (snd (terminate_loop os l t tmo ps (snd ?r)))) =
          signalled (trace (snd ?r)) @ ks"
        "prefix ks (map pid (filter (should_terminate l t) ps))"
        "fst (terminate_loop os l t tmo ps (snd ?r)) = Inr () \<longrightarrow>
           ks = map pid (filter (should_terminate l t) ps)"
      using Cons.IH[of "snd ?r"] by blast
    show ?thesis
      unfolding step
      using ks k(1) keq by (intro exI[of _ "k @ ks"]) simp
  qed
qed

lemma terminate_step_no_match:
  assumes "name_differs t p"
  shows "terminate_step os l t tmo p s = (Inr (), s)"
  using assms unfolding terminate_step_def name_differs_def
  by (auto simp: returnE_def split: option.splits)

lemma terminate_loop_no_match:
  assumes "list_all (name_differs t) ps"
  shows "terminate_loop os l t tmo ps s = (Inr (), s)"
  using assms
  by (induction ps) (simp_all add: returnE_def thenE_def bindE_def terminate_step_no_match)

subsection \<open>\<^verbatim>\<open>terminate_named_process\<close> and \<^verbatim>\<open>stop_game\<close>\<close>

lemma terminate_named_process_char:
  "terminate_named_process os t tmo s =
     (case getlogin os (trace s) of
        Inl e \<Rightarrow> (Inl e, issue GetLogin s)
      | Inr l \<Rightarrow>
         (case process_iter os (trace s @ [GetLogin]) of
            Inl e \<Rightarrow> (Inl e, issue ProcessIter (issue GetLogin s))
          | Inr ps \<Rightarrow> terminate_loop os l t tmo ps (issue ProcessIter (issue GetLogin s))))"
  unfolding terminate_named_process_def
  by (auto simp: prog_defs call_defs split: sum.splits)

lemma terminate_named_process_trace_only:
  assumes "trace s1 = trace s2"
  shows "fst (terminate_named_process os t tmo s1) = fst (terminate_named_process os t tmo s2) \<and>
         trace (snd (terminate_named_process os t tmo s1)) =
         trace (snd (terminate_named_process os t tmo s2))"
proof -
  have "trace (issue ProcessIter (issue GetLogin s1)) = trace (issue ProcessIter (issue GetLogin s2))"
    using assms by (simp add: issue_def)
  from terminate_loop_trace_only[OF this] assms show ?thesis
    by (simp add: terminate_named_process_char issue_def split: sum.splits)
qed

lemma terminate_named_process_keeps:
  "self (snd (terminate_named_process os t tmo s)) = self s \<and>
   logs (snd (terminate_named_process os t tmo s)) = logs s"
  by (simp add: terminate_named_process_char issue_def terminate_loop_keeps split: sum.splits)

lemma stop_game_char:
  "stop_game os s =
     (let pn = process_name (self s); r = terminate_named_process os pn 10 s in
      case fst r of
        Inr u \<Rightarrow> (Inr True, snd (log_info (MsgGameStopped pn) (snd r)))
      | Inl e \<Rightarrow> (Inr False, snd (log_error (MsgStopError e) (snd r))))"
  unfolding stop_game_def
  by (auto simp: prog_defs log_defs Let_def split: prod.splits sum.splits option.splits)

lemma stop_game_result:
  "fst (stop_game os s) =
     Inr (fst (terminate_named_process os (process_name (self s)) 10 s) = Inr ())"
  by (simp add: stop_game_char Let_def split: sum.splits)

lemma stop_game_returns: "\<exists>b. fst (stop_game os s) = Inr b"
  using stop_game_result[of os s] by blast

lemma trace_stop_game:
  "trace (snd (stop_game os s)) = trace (snd (terminate_named_process os (process_name (self s)) 10 s))"
  by (simp add: stop_game_char Let_def log_info_def log_error_def trace_log_to split: sum.splits)

lemma self_stop_game: "self (snd (stop_game os s)) = self s"
  by (simp add: stop_game_char Let_def log_info_def log_error_def self_log_to
        terminate_named_process_keeps split: sum.splits)

subsection \<open>\<^verbatim>\<open>start_game\<close>\<close>

lemma start_game_char:
  "start_game os s =
     (let gp = game_path (self s); s1 = issue (PathExists gp) s in
      if \<not> path_exists os (trace s) gp then (Inr False, snd (log_error (MsgPathMissing gp) s1))
      else let s2 = issue (System (start_command gp)) s1 in
        if system os (trace s1) (start_command gp) = 0
        then (Inr True, snd (log_info (MsgGameStarted gp) s2))
        else (Inr False, snd (log_error MsgStartError s2)))"
  unfolding start_game_def
  by (auto simp: prog_defs log_defs call_defs Let_def split: prod.splits sum.splits option.splits)

lemma start_game_outcome:
  "fst (start_game os s) =
     Inr (path_exists os (trace s) (game_path (self s)) \<and>
          system os (trace s @ [PathExists (game_path (self s))])
            (start_command (game_path (self s))) = 0) \<and>
   trace (snd (start_game os s)) =
     trace s @
       (if path_exists os (trace s) (game_path (self s))
        then [PathExists (game_path (self s)), System (start_command (game_path (self s)))]
        else [PathExists (game_path (self s))])"
  by (simp add: start_game_char Let_def issue_def log_info_def log_error_def trace_log_to)

lemma self_start_game: "self (snd (start_game os s)) = self s"
  by (simp add: start_game_char Let_def issue_def log_info_def log_error_def self_log_to)

subsection \<open>\<^verbatim>\<open>switch_to_game\<close> and \<^verbatim>\<open>get_resolution\<close>\<close>

lemma switch_to_game_returns: "\<exists>b. fst (switch_to_game os s) = Inr b"
  unfolding switch_to_game_def
  by (auto simp: prog_defs log_defs split: prod.splits sum.splits)

lemma switch_to_game_lookup_fails:
  assumes "find_window os (trace s) (window_class (self s)) (window_name (self s)) = Inl e"
  shows "fst (switch_to_game os s) = Inr False"
  using assms unfolding switch_to_game_def
  by (simp add: prog_defs call_defs log_defs split: option.splits)

lemma self_switch_to_game: "self (snd (switch_to_game os s)) = self s"
  unfolding switch_to_game_def set_foreground_window_with_retry_def toggle_window_state_def
  by (simp add: prog_defs call_defs log_defs Let_def split: option.splits sum.splits)

lemma get_resolution_char:
  "fst (get_resolution os s) =
     (case find_window os (trace s) (window_class (self s)) (window_name (self s)) of
        Inl e \<Rightarrow> if e = IndexError then Inr None else Inl e
      | Inr hwnd \<Rightarrow>
          if hwnd = 0 then Inr None
          else
            (case get_client_rect os
                    (trace s @ [FindWindow (window_class (self s)) (window_name (self s))]) hwnd of
               Inl e \<Rightarrow> if e = IndexError then Inr None else Inl e
             | Inr (x0, y0, window_width, window_height) \<Rightarrow>
                 Inr (Some (window_width, window_height))))"
  unfolding get_resolution_def
  by (simp add: prog_defs call_defs log_defs split: option.splits sum.splits prod.splits)

lemma self_get_resolution: "self (snd (get_resolution os s)) = self s"
  unfolding get_resolution_def
  by (simp add: prog_defs call_defs log_defs Let_def split: option.splits sum.splits prod.splits)

subsection \<open>\<^verbatim>\<open>shutdown\<close>\<close>

text \<open>\<^verbatim>\<open>stop_game\<close> runs first and its result is dropped.\<close>

lemma shutdown_after_stop:
  "shutdown os action delay s =
     (if action \<notin> set [''Shutdown'', ''Hibernate'', ''Sleep''] then returnE True
      else
        thenE (log_warning (MsgWillAct delay action))
       (thenE (time_sleep os delay)
       (try_except
          (thenE (power_commands os action)
          (thenE (log_info (MsgActed action))
                 (returnE True)))
          except_Exception
          (\<lambda>e. thenE (log_error (MsgActError action e)) (returnE False)))))
     (snd (stop_game os s))"
proof -
  obtain b where "fst (stop_game os s) = Inr b"
    using stop_game_returns by blast
  then show ?thesis
    unfolding shutdown_def
    by (cases "stop_game os s") (simp add: thenE_def bindE_def)
qed

lemma power_commands_char:
  "power_commands os ''Sleep'' s =
     (Inr (), s\<lparr>trace := trace s @ [System ''powercfg -h off'',
        System ''rundll32.exe powrprof.dll,SetSuspendState 0,1,0'', System ''powercfg -h on'']\<rparr>)"
  "power_commands os ''Shutdown'' s = (Inr (), s\<lparr>trace := trace s @ [System ''shutdown /s /t 0'']\<rparr>)"
  "power_commands os ''Hibernate'' s = (Inr (), s\<lparr>trace := trace s @ [System ''shutdown /h'']\<rparr>)"
  unfolding power_commands_def
  by (simp_all add: prog_defs call_defs)

lemma power_action_cases:
  assumes "\<not> action \<notin> set [''Shutdown'', ''Hibernate'', ''Sleep'']"
  obtains "action = ''Shutdown''" | "action = ''Hibernate''" | "action = ''Sleep''"
  using assms by auto

lemma shutdown_power_run:
  assumes "0 \<le> delay" and "delay \<le> pytime_max"
    and "sleep os (trace (snd (stop_game os s))) delay = None"
  shows "fst (shutdown os ''Sleep'' delay s) = Inr True \<and>
         trace (snd (shutdown os ''Sleep'' delay s)) =
           trace (snd (stop_game os s)) @
             [Sleep delay, System ''powercfg -h off'',
              System ''rundll32.exe powrprof.dll,SetSuspendState 0,1,0'',
              System ''powercfg -h on''] \<and>
         fst (shutdown os ''Shutdown'' delay s) = Inr True \<and>
         trace (snd (shutdown os ''Shutdown'' delay s)) =
           trace (snd (stop_game os s)) @ [Sleep delay, System ''shutdown /s /t 0''] \<and>
         fst (shutdown os ''Hibernate'' delay s) = Inr True \<and>
         trace (snd (shutdown os ''Hibernate'' delay s)) =
           trace (snd (stop_game os s)) @ [Sleep delay, System ''shutdown /h'']"
  using assms
  by (simp add: shutdown_after_stop power_commands_char prog_defs log_defs time_sleep_def issue_def
        unit_result_def pytime_max_def split: option.splits)

text \<open>A delay beyond the range of the interpreter's clock: the sleep raises, outside the \<^verbatim>\<open>try\<close>.\<close>

lemma shutdown_delay_too_large:
  "fst (shutdown os ''Sleep'' 10000000000 s) = Inl OverflowError \<and>
   trace (snd (shutdown os ''Sleep'' 10000000000 s)) =
     trace (snd (stop_game os s)) @ [Sleep 10000000000]"
  by (simp add: shutdown_after_stop prog_defs log_defs time_sleep_def issue_def pytime_max_def
        split: option.splits)

lemma shutdown_trace_prefix:
  "prefix (trace (snd (stop_game os s))) (trace (snd (shutdown os action delay s)))"
proof (cases "action \<notin> set [''Shutdown'', ''Hibernate'', ''Sleep'']")
  case True
  then show ?thesis by (simp add: shutdown_after_stop returnE_def)
next
  case False
  then show ?thesis
    by (cases rule: power_action_cases)
      (simp_all add: shutdown_after_stop power_commands_char prog_defs log_defs time_sleep_def
         issue_def unit_result_def split: option.splits)
qed

lemma self_shutdown: "self (snd (shutdown os action delay s)) = self s"
proof (cases "action \<notin> set [''Shutdown'', ''Hibernate'', ''Sleep'']")
  case True
  then show ?thesis by (simp add: shutdown_after_stop returnE_def self_stop_game)
next
  case False
  then show ?thesis
    by (cases rule: power_action_cases)
      (simp_all add: shutdown_after_stop power_commands_char prog_defs log_defs time_sleep_def
         issue_def unit_result_def self_stop_game split: option.splits)
qed

subsection \<open>Runs that differ in the logger\<close>

lemma same_but_logger_fields:
  assumes "same_but_logger s1 s2"
  shows "trace s1 = trace s2" "game_path (self s1) = game_path (self s2)"
    "process_name (self s1) = process_name (self s2)"
    "window_name (self s1) = window_name (self s2)"
    "window_class (self s1) = window_class (self s2)"
  using assms by (simp_all add: same_but_logger_def identity_def)

lemma stop_game_logger:
  assumes "same_but_logger s1 s2"
  shows "fst (stop_game os s1) = fst (stop_game os s2) \<and>
         trace (snd (stop_game os s1)) = trace (snd (stop_game os s2))"
proof -
  have pn: "process_name (self s1) = process_name (self s2)"
    using assms by (rule same_but_logger_fields)
  have tr: "trace s1 = trace s2"
    using assms by (rule same_but_logger_fields)
  note eq = terminate_named_process_trace_only[OF tr, of os "process_name (self s2)" 10]
  have "fst (stop_game os s1) = fst (stop_game os s2)"
    using eq by (simp add: stop_game_char Let_def pn split: sum.splits)
  moreover have "trace (snd (stop_game os s1)) = trace (snd (stop_game os s2))"
    using eq by (simp only: trace_stop_game pn)
  ultimately show ?thesis by simp
qed

lemma start_game_logger:
  assumes "same_but_logger s1 s2"
  shows "fst (start_game os s1) = fst (start_game os s2) \<and>
         trace (snd (start_game os s1)) = trace (snd (start_game os s2))"
  using same_but_logger_fields[OF assms]
  by (simp only: start_game_outcome)

lemma switch_to_game_logger:
  assumes "same_but_logger s1 s2"
  shows "fst (switch_to_game os s1) = fst (switch_to_game os s2) \<and>
         trace (snd (switch_to_game os s1)) = trace (snd (switch_to_game os s2))"
  using same_but_logger_fields[OF assms]
  unfolding switch_to_game_def set_foreground_window_with_retry_def toggle_window_state_def
  by (simp add: prog_defs call_defs log_defs Let_def split: option.splits sum.splits)

lemma get_resolution_logger:
  assumes "same_but_logger s1 s2"
  shows "fst (get_resolution os s1) = fst (get_resolution os s2) \<and>
         trace (snd (get_resolution os s1)) = trace (snd (get_resolution os s2))"
  using same_but_logger_fields[OF assms]
  unfolding get_resolution_def
  by (simp add: prog_defs call_defs log_defs Let_def split: option.splits sum.splits prod.splits)

lemma after_stop_logger:
  assumes m: "m = (if action \<notin> set [''Shutdown'', ''Hibernate'', ''Sleep''] then returnE True
      else
        thenE (log_warning (MsgWillAct delay action))
       (thenE (time_sleep os delay)
       (try_except
          (thenE (power_commands os action)
          (thenE (log_info (MsgActed action))
                 (returnE True)))
          except_Exception
          (\<lambda>e. thenE (log_error (MsgActError action e)) (returnE False)))))"
    and tr: "trace s1 = trace s2"
  shows "fst (m s1) = fst (m s2) \<and> trace (snd (m s1)) = trace (snd (m s2))"
proof (cases "action \<notin> set [''Shutdown'', ''Hibernate'', ''Sleep'']")
  case True
  then show ?thesis using tr m by (simp add: returnE_def)
next
  case False
  then show ?thesis
    using tr unfolding m
    by (cases rule: power_action_cases)
      (simp_all add: power_commands_char prog_defs log_defs time_sleep_def
         issue_def unit_result_def split: option.splits)
qed

lemma shutdown_logger:
  assumes "same_but_logger s1 s2"
  shows "fst (shutdown os action delay s1) = fst (shutdown os action delay s2) \<and>
         trace (snd (shutdown os action delay s1)) = trace (snd (shutdown os action delay s2))"
proof -
  from stop_game_logger[OF assms, of os]
  have "trace (snd (stop_game os s1)) = trace (snd (stop_game os s2))" by simp
  from after_stop_logger[OF refl this] show ?thesis
    by (simp only: shutdown_after_stop)
qed

subsection \<open>A sink whose methods return\<close>

lemma log_to_with_returning: "log_to_with (\<lambda>h l lvl msg. None) lvl m = log_to lvl m"
  by (rule ext) (simp add: log_to_with_def log_to_def unit_result_def split: option.splits)

lemma log_helpers_returning:
  "log_debug_with (\<lambda>h l lvl msg. None) = log_debug"
  "log_info_with (\<lambda>h l lvl msg. None) = log_info"
  "log_error_with (\<lambda>h l lvl msg. None) = log_error"
  "log_warning_with (\<lambda>h l lvl msg. None) = log_warning"
  by (rule ext, simp add: log_with_defs log_defs unit_result_def split: option.splits)+

lemma ops_with_returning:
  "start_game_with (\<lambda>h l lvl msg. None) os = start_game os"
  "stop_game_with (\<lambda>h l lvl msg. None) os = stop_game os"
  "switch_to_game_with (\<lambda>h l lvl msg. None) os = switch_to_game os"
  "get_resolution_with (\<lambda>h l lvl msg. None) os = get_resolution os"
  "shutdown_with (\<lambda>h l lvl msg. None) os action delay = shutdown os action delay"
proof -
  show "start_game_with (\<lambda>h l lvl msg. None) os = start_game os"
    unfolding start_game_with_def start_game_def log_helpers_returning by (rule refl)
  show stop: "stop_game_with (\<lambda>h l lvl msg. None) os = stop_game os"
    unfolding stop_game_with_def stop_game_def log_helpers_returning by (rule refl)
  show "switch_to_game_with (\<lambda>h l lvl msg. None) os = switch_to_game os"
    unfolding switch_to_game_with_def switch_to_game_def log_helpers_returning by (rule refl)
  show "get_resolution_with (\<lambda>h l lvl msg. None) os = get_resolution os"
    unfolding get_resolution_with_def get_resolution_def log_helpers_returning by (rule refl)
  show "shutdown_with (\<lambda>h l lvl msg. None) os action delay = shutdown os action delay"
    unfolding shutdown_with_def shutdown_def stop log_helpers_returning by (rule refl)
qed

lemma sink_returns_eq:
  assumes "\<And>h l lvl msg. sk h l lvl msg = None"
  shows "sk = (\<lambda>h l lvl msg. None)"
  by (intro ext) (rule assms)

section \<open>The properties of the specification\<close>

subsection \<open>Exceptions at the boundary of an operation\<close>

text \<open>
  C1 says that no exception escapes a public operation, and that \<^verbatim>\<open>get_resolution\<close>
  treats a failure of the window lookup or of the geometry query as "not found". The code
  does not do that: the handler of \<^verbatim>\<open>get_resolution\<close> is \<^verbatim>\<open>except IndexError\<close>, while
  the two calls of \<^verbatim>\<open>win32gui\<close> raise \<^verbatim>\<open>pywintypes.error\<close>. When the window is found and
  closed before its geometry is read, or when the lookup itself raises, the exception
  leaves \<^verbatim>\<open>get_resolution\<close>; on the same host \<^verbatim>\<open>switch_to_game\<close>, whose handler is
  \<^verbatim>\<open>except Exception\<close> around the same lookup, returns false.
\<close>

theorem get_resolution_exception_escapes:
  "fst (get_resolution closed_window_os (fresh demo_controller)) = Inl WinError \<and>
   trace (snd (get_resolution closed_window_os (fresh demo_controller))) =
     [FindWindow (Some ''UnityWndClass'') ''StarRail'', GetClientRect 42] \<and>
   fst (get_resolution lookup_fails_os (fresh demo_controller)) = Inl WinError \<and>
   fst (switch_to_game lookup_fails_os (fresh demo_controller)) = Inr False"
  by (simp add: op_defs demo_defs prog_defs call_defs log_defs)

subsection \<open>Which processes are signalled\<close>

text \<open>
  C2, as the code has it. \<^verbatim>\<open>stop_game\<close> calls \<^verbatim>\<open>terminate()\<close> only on processes whose
  name contains the bound process name and whose owner, the domain prefix stripped, is the
  login name, in the order of the enumeration: the processes signalled are an initial part
  of the processes that satisfy both predicates. When no call raises, which is when
  \<^verbatim>\<open>stop_game\<close> returns true, they are all of them.
\<close>

theorem stop_game_signals:
  assumes "getlogin os (trace s) = Inr login"
    and "process_iter os (trace s @ [GetLogin]) = Inr procs"
  shows "\<exists>ks. signalled (trace (snd (stop_game os s))) = signalled (trace s) @ ks \<and>
           prefix ks (map pid (filter (should_terminate login (process_name (self s))) procs)) \<and>
           (fst (stop_game os s) = Inr True \<longrightarrow>
              ks = map pid (filter (should_terminate login (process_name (self s))) procs))"
proof -
  let ?s1 = "issue ProcessIter (issue GetLogin s)"
  let ?pn = "process_name (self s)"
  have tnp: "terminate_named_process os ?pn 10 s = terminate_loop os login ?pn 10 procs ?s1"
    using assms by (simp add: terminate_named_process_char)
  have sig: "signalled (trace ?s1) = signalled (trace s)"
    by (simp add: issue_def signalled_append)
  have res: "fst (stop_game os s) = Inr True \<longrightarrow> fst (terminate_loop os login ?pn 10 procs ?s1) = Inr ()"
    by (simp add: stop_game_result tnp)
  from terminate_loop_signalled[of os login ?pn 10 procs ?s1] sig res
  show ?thesis
    by (auto simp: trace_stop_game tnp)
qed

text \<open>
  Four processes, two of them the game of the invoking user (one with a domain prefix):
  these two are signalled, the other two are not.
\<close>

theorem stop_game_signals_witness:
  "getlogin two_games_os (trace (fresh demo_controller)) = Inr ''alice'' \<and>
   process_iter two_games_os (trace (fresh demo_controller) @ [GetLogin]) = Inr game_procs \<and>
   fst (stop_game two_games_os (fresh demo_controller)) = Inr True \<and>
   map pid (filter (should_terminate ''alice'' ''StarRail.exe'') game_procs) = [1, 4] \<and>
   signalled (trace (snd (stop_game two_games_os (fresh demo_controller)))) = [1, 4]"
  using stop_game_signals[where os = two_games_os and s = "fresh demo_controller"
      and login = "''alice''" and procs = game_procs]
  by (simp add: op_defs demo_defs prog_defs call_defs log_defs should_terminate_def
        strip_domain_def)

text \<open>
  C2 as stated fails: process 1 does not exit within the ten seconds, \<^verbatim>\<open>wait\<close> raises
  \<^verbatim>\<open>TimeoutExpired\<close>, the loop is left, and process 4, which satisfies both predicates,
  is never signalled.
\<close>

theorem stop_game_timeout_skips_process:
  "fst (stop_game slow_exit_os (fresh demo_controller)) = Inr False \<and>
   signalled (trace (snd (stop_game slow_exit_os (fresh demo_controller)))) = [1] \<and>
   map pid (filter (should_terminate ''alice'' ''StarRail.exe'') game_procs) = [1, 4]"
  by (simp add: op_defs demo_defs prog_defs call_defs log_defs should_terminate_def
        strip_domain_def)

subsection \<open>The power commands\<close>

text \<open>
  C3, as the code has it. For every delay for which \<^verbatim>\<open>time.sleep\<close> returns, that is a
  delay that is not negative, that fits the clock of the interpreter and that the platform
  lets pass, \<^verbatim>\<open>shutdown\<close> with action \<^verbatim>\<open>Sleep\<close> sleeps for the delay and then issues
  exactly three commands in this order: hibernation off, the suspend request, hibernation
  on; with action \<^verbatim>\<open>Shutdown\<close> or \<^verbatim>\<open>Hibernate\<close> it sleeps and issues exactly one
  command. It returns true.
\<close>

theorem shutdown_power_commands:
  assumes "0 \<le> delay" and "delay \<le> pytime_max"
    and "sleep os (trace (snd (stop_game os s))) delay = None"
  shows "fst (shutdown os ''Sleep'' delay s) = Inr True \<and>
         trace (snd (shutdown os ''Sleep'' delay s)) =
           trace (snd (stop_game os s)) @
             [Sleep delay, System ''powercfg -h off'',
              System ''rundll32.exe powrprof.dll,SetSuspendState 0,1,0'',
              System ''powercfg -h on''] \<and>
         fst (shutdown os ''Shutdown'' delay s) = Inr True \<and>
         trace (snd (shutdown os ''Shutdown'' delay s)) =
           trace (snd (stop_game os s)) @ [Sleep delay, System ''shutdown /s /t 0''] \<and>
         fst (shutdown os ''Hibernate'' delay s) = Inr True \<and>
         trace (snd (shutdown os ''Hibernate'' delay s)) =
           trace (snd (stop_game os s)) @ [Sleep delay, System ''shutdown /h'']"
  using assms by (rule shutdown_power_run)

theorem shutdown_power_commands_witness:
  "(0::int) \<le> 60 \<and> 60 \<le> pytime_max \<and>
   sleep quiet_os (trace (snd (stop_game quiet_os (fresh demo_controller)))) 60 = None \<and>
   fst (shutdown quiet_os ''Sleep'' 60 (fresh demo_controller)) = Inr True \<and>
   trace (snd (shutdown quiet_os ''Sleep'' 60 (fresh demo_controller))) =
     [GetLogin, ProcessIter, Sleep 60, System ''powercfg -h off'',
      System ''rundll32.exe powrprof.dll,SetSuspendState 0,1,0'', System ''powercfg -h on''] \<and>
   trace (snd (shutdown quiet_os ''Shutdown'' 60 (fresh demo_controller))) =
     [GetLogin, ProcessIter, Sleep 60, System ''shutdown /s /t 0''] \<and>
   trace (snd (shutdown quiet_os ''Hibernate'' 60 (fresh demo_controller))) =
     [GetLogin, ProcessIter, Sleep 60, System ''shutdown /h'']"
  using shutdown_power_commands[where delay = 60 and os = quiet_os and s = "fresh demo_controller"]
  by (simp add: op_defs demo_defs prog_defs call_defs log_defs)

text \<open>
  C3 as stated fails for a negative delay: \<^verbatim>\<open>time.sleep\<close> raises \<^verbatim>\<open>ValueError\<close>
  outside the \<^verbatim>\<open>try\<close>, the exception leaves \<^verbatim>\<open>shutdown\<close>, and no power command is
  issued.
\<close>

theorem shutdown_negative_delay:
  "fst (shutdown quiet_os ''Sleep'' (- 1) (fresh demo_controller)) = Inl ValueError \<and>
   trace (snd (shutdown quiet_os ''Sleep'' (- 1) (fresh demo_controller))) =
     [GetLogin, ProcessIter, Sleep (- 1)]"
  by (simp add: op_defs demo_defs prog_defs call_defs log_defs)

subsection \<open>The focus protocol\<close>

text \<open>
  C4. When the lookup finds a window, \<^verbatim>\<open>switch_to_game\<close> restores it and requests the
  foreground. If the request is granted it returns true. If it is refused, the window is
  minimized and restored and the request is made once more: granted, the result is true;
  refused again, \<^verbatim>\<open>set_foreground_window_with_retry\<close> raises, \<^verbatim>\<open>switch_to_game\<close> catches
  the exception, logs it as an error and returns false. No other call is issued.
\<close>

theorem focus_protocol:
  assumes "find_window os (trace s) (window_class (self s)) (window_name (self s)) = Inr hwnd"
    and "hwnd \<noteq> 0"
  shows "let t0 = trace s @ [FindWindow (window_class (self s)) (window_name (self s))];
             t1 = t0 @ [ShowWindow hwnd SW_RESTORE];
             t2 = t1 @ [SetForegroundWindow hwnd, ShowWindow hwnd SW_MINIMIZE,
                        ShowWindow hwnd SW_RESTORE];
             failed = Exception ''Failed to set window foreground'';
             r = switch_to_game os s
         in if set_foreground_window os t1 hwnd \<noteq> 0 then
              fst r = Inr True \<and> trace (snd r) = t1 @ [SetForegroundWindow hwnd]
            else if set_foreground_window os t2 hwnd \<noteq> 0 then
              fst r = Inr True \<and> trace (snd r) = t2 @ [SetForegroundWindow hwnd]
            else
              fst (set_foreground_window_with_retry os hwnd (s\<lparr>trace := t0\<rparr>)) = Inl failed \<and>
              fst r = Inr False \<and> trace (snd r) = t2 @ [SetForegroundWindow hwnd] \<and>
              logs (snd r) =
                logs s @ (case logger (self s) of
                            None \<Rightarrow> []
                          | Some l \<Rightarrow> [(l, ERROR, MsgActivateError failed)])"
  using assms
  unfolding switch_to_game_def set_foreground_window_with_retry_def toggle_window_state_def
  by (simp add: prog_defs call_defs log_defs Let_def split: option.splits)

text \<open>A host that refuses the first request and grants the second.\<close>

theorem focus_protocol_witness:
  "find_window focus_retry_os (trace (fresh demo_controller))
     (window_class (self (fresh demo_controller)))
     (window_name (self (fresh demo_controller))) = Inr 42 \<and>
   (42::int) \<noteq> 0 \<and>
   fst (switch_to_game focus_retry_os (fresh demo_controller)) = Inr True \<and>
   trace (snd (switch_to_game focus_retry_os (fresh demo_controller))) =
     [FindWindow (Some ''UnityWndClass'') ''StarRail'', ShowWindow 42 9, SetForegroundWindow 42,
      ShowWindow 42 6, ShowWindow 42 9, SetForegroundWindow 42]"
  using focus_protocol[where os = focus_retry_os and s = "fresh demo_controller" and hwnd = 42]
  by (simp add: op_defs demo_defs prog_defs call_defs log_defs)

subsection \<open>Starting the game\<close>

text \<open>
  C5. \<^verbatim>\<open>start_game\<close> asks whether the bound path exists. If it does not, the result is
  false and nothing else is called. If it does, exactly one shell command is issued, the
  command \<^verbatim>\<open>cmd /C start "" "<game_path>"\<close> that starts the executable, and the result
  is true when the exit status of the shell is zero and false otherwise.
\<close>

theorem start_game_spawn:
  \<open>fst (start_game os s) =
     Inr (path_exists os (trace s) (game_path (self s)) \<and>
          system os (trace s @ [PathExists (game_path (self s))])
            (''cmd /C start "" "'' @ game_path (self s) @ ''"'') = 0) \<and>
   trace (snd (start_game os s)) =
     trace s @
       (if path_exists os (trace s) (game_path (self s))
        then [PathExists (game_path (self s)),
              System (''cmd /C start "" "'' @ game_path (self s) @ ''"'')]
        else [PathExists (game_path (self s))])\<close>
  using start_game_outcome[of os s] by (simp add: start_command_def dquote_def)

text \<open>
  The executable \<^verbatim>\<open>StarRail.exe\<close> on three hosts: the shell starts it, the shell reports a
  failure, the path does not exist.
\<close>

theorem start_game_spawn_witness:
  \<open>fst (start_game installed_os (fresh demo_controller)) = Inr True \<and>
   trace (snd (start_game installed_os (fresh demo_controller))) =
     [PathExists ''StarRail.exe'', System ''cmd /C start "" "StarRail.exe"''] \<and>
   fst (start_game spawn_fails_os (fresh demo_controller)) = Inr False \<and>
   trace (snd (start_game spawn_fails_os (fresh demo_controller))) =
     [PathExists ''StarRail.exe'', System ''cmd /C start "" "StarRail.exe"''] \<and>
   fst (start_game quiet_os (fresh demo_controller)) = Inr False \<and>
   trace (snd (start_game quiet_os (fresh demo_controller))) = [PathExists ''StarRail.exe'']\<close>
  using start_game_spawn[of installed_os "fresh demo_controller"]
    start_game_spawn[of spawn_fails_os "fresh demo_controller"]
    start_game_spawn[of quiet_os "fresh demo_controller"]
  by (simp add: demo_defs)

subsection \<open>The actions that do nothing further\<close>

text \<open>
  C6. For every delay, \<^verbatim>\<open>shutdown\<close> with action \<^verbatim>\<open>Exit\<close> or \<^verbatim>\<open>Loop\<close> returns true in
  the state that \<^verbatim>\<open>stop_game\<close> leaves, whatever \<^verbatim>\<open>stop_game\<close> returned: no power command,
  no sleep, no log record is added. For every action, the calls of \<^verbatim>\<open>stop_game\<close> come
  first.
\<close>

theorem shutdown_exit_loop:
  "shutdown os ''Exit'' delay s = (Inr True, snd (stop_game os s)) \<and>
   shutdown os ''Loop'' delay s = (Inr True, snd (stop_game os s)) \<and>
   prefix (trace (snd (stop_game os s))) (trace (snd (shutdown os action delay s)))"
proof -
  have "shutdown os ''Exit'' delay s = (Inr True, snd (stop_game os s))"
    by (simp add: shutdown_after_stop returnE_def)
  moreover have "shutdown os ''Loop'' delay s = (Inr True, snd (stop_game os s))"
    by (simp add: shutdown_after_stop returnE_def)
  ultimately show ?thesis
    using shutdown_trace_prefix[of os s action delay] by (intro conjI)
qed

subsection \<open>No window\<close>

text \<open>
  C7. When the lookup answers the handle zero, \<^verbatim>\<open>switch_to_game\<close> returns false and
  \<^verbatim>\<open>get_resolution\<close> an absent result, and the lookup is the only call either of them
  issues.
\<close>

theorem window_not_found:
  assumes "find_window os (trace s) (window_class (self s)) (window_name (self s)) = Inr 0"
  shows "fst (switch_to_game os s) = Inr False \<and>
         trace (snd (switch_to_game os s)) =
           trace s @ [FindWindow (window_class (self s)) (window_name (self s))] \<and>
         fst (get_resolution os s) = Inr None \<and>
         trace (snd (get_resolution os s)) =
           trace s @ [FindWindow (window_class (self s)) (window_name (self s))]"
  using assms unfolding switch_to_game_def get_resolution_def
  by (simp add: prog_defs call_defs log_defs split: option.splits)

theorem window_not_found_witness:
  "find_window quiet_os (trace (fresh demo_controller))
     (window_class (self (fresh demo_controller)))
     (window_name (self (fresh demo_controller))) = Inr 0 \<and>
   switch_to_game quiet_os (fresh demo_controller) =
     (Inr False, (fresh demo_controller)
        \<lparr>trace := [FindWindow (Some ''UnityWndClass'') ''StarRail'']\<rparr>) \<and>
   get_resolution quiet_os (fresh demo_controller) =
     (Inr None, (fresh demo_controller)
        \<lparr>trace := [FindWindow (Some ''UnityWndClass'') ''StarRail'']\<rparr>)"
  using window_not_found[where os = quiet_os and s = "fresh demo_controller"]
  by (simp add: op_defs demo_defs prog_defs call_defs log_defs)

subsection \<open>The identity of the controller\<close>

text \<open>
  C8. The constructor stores the normalized path and the three other identity fields as
  given, and no public operation changes any of the four.
\<close>

theorem identity_immutable:
  "identity (init normpath gp pn wn wc lg) = (normpath gp, pn, wn, wc) \<and>
   identity (self (snd (start_game os s))) = identity (self s) \<and>
   identity (self (snd (stop_game os s))) = identity (self s) \<and>
   identity (self (snd (switch_to_game os s))) = identity (self s) \<and>
   identity (self (snd (get_resolution os s))) = identity (self s) \<and>
   identity (self (snd (shutdown os action delay s))) = identity (self s)"
  by (simp add: self_start_game self_stop_game self_switch_to_game self_get_resolution
        self_shutdown)
    (simp add: identity_def init_def)

subsection \<open>What a true result of \<^verbatim>\<open>stop_game\<close> means\<close>

text \<open>
  C9. \<^verbatim>\<open>stop_game\<close> returns true exactly when \<^verbatim>\<open>terminate_named_process\<close>, which
  returns nothing, raises no exception. In particular it returns true when every process
  has a name that does not contain the bound process name: then the login query and the
  enumeration are its only calls, and no process is signalled.
\<close>

theorem stop_game_true:
  "fst (stop_game os s) =
     Inr (fst (terminate_named_process os (process_name (self s)) 10 s) = Inr ()) \<and>
   (getlogin os (trace s) = Inr login \<and>
    process_iter os (trace s @ [GetLogin]) = Inr procs \<and>
    list_all (name_differs (process_name (self s))) procs \<longrightarrow>
      fst (stop_game os s) = Inr True \<and>
      trace (snd (stop_game os s)) = trace s @ [GetLogin, ProcessIter])"
proof -
  have "fst (terminate_named_process os (process_name (self s)) 10 s) = Inr () \<and>
      trace (snd (terminate_named_process os (process_name (self s)) 10 s)) =
        trace s @ [GetLogin, ProcessIter]"
    if "getlogin os (trace s) = Inr login" "process_iter os (trace s @ [GetLogin]) = Inr procs"
      "list_all (name_differs (process_name (self s))) procs"
    using that by (simp add: terminate_named_process_char terminate_loop_no_match issue_def)
  then show ?thesis
    using stop_game_result[of os s] by (simp add: trace_stop_game)
qed

theorem stop_game_true_witness:
  "getlogin no_game_os (trace (fresh demo_controller)) = Inr ''alice'' \<and>
   process_iter no_game_os (trace (fresh demo_controller) @ [GetLogin]) = Inr other_procs \<and>
   list_all (name_differs (process_name (self (fresh demo_controller)))) other_procs \<and>
   fst (stop_game no_game_os (fresh demo_controller)) = Inr True \<and>
   trace (snd (stop_game no_game_os (fresh demo_controller))) = [GetLogin, ProcessIter] \<and>
   signalled (trace (snd (stop_game no_game_os (fresh demo_controller)))) = []"
  using stop_game_true[where os = no_game_os and s = "fresh demo_controller"
      and login = "''alice''" and procs = other_procs]
  by (simp add: op_defs demo_defs prog_defs call_defs log_defs name_differs_def)

subsection \<open>The logger does not influence the result\<close>

text \<open>
  C10, as the code has it. For a logging sink whose methods return, two runs of a public
  operation on the same host, from states that agree on the calls issued so far and on the
  identity of the controller and differ in the logger in any way (absent or present),
  return the same value and issue the same calls.
\<close>

theorem logger_independent:
  assumes "\<And>h l lvl msg. sk h l lvl msg = None"
    and "same_but_logger s1 s2"
  shows "fst (start_game_with sk os s1) = fst (start_game_with sk os s2) \<and>
         trace (snd (start_game_with sk os s1)) = trace (snd (start_game_with sk os s2)) \<and>
         fst (stop_game_with sk os s1) = fst (stop_game_with sk os s2) \<and>
         trace (snd (stop_game_with sk os s1)) = trace (snd (stop_game_with sk os s2)) \<and>
         fst (switch_to_game_with sk os s1) = fst (switch_to_game_with sk os s2) \<and>
         trace (snd (switch_to_game_with sk os s1)) =
           trace (snd (switch_to_game_with sk os s2)) \<and>
         fst (get_resolution_with sk os s1) = fst (get_resolution_with sk os s2) \<and>
         trace (snd (get_resolution_with sk os s1)) =
           trace (snd (get_resolution_with sk os s2)) \<and>
         fst (shutdown_with sk os action delay s1) = fst (shutdown_with sk os action delay s2) \<and>
         trace (snd (shutdown_with sk os action delay s1)) =
           trace (snd (shutdown_with sk os action delay s2))"
proof -
  have sk: "sk = (\<lambda>h l lvl msg. None)"
    using assms(1) by (rule sink_returns_eq)
  show ?thesis
    unfolding sk ops_with_returning
    using start_game_logger[OF assms(2), of os] stop_game_logger[OF assms(2), of os]
      switch_to_game_logger[OF assms(2), of os] get_resolution_logger[OF assms(2), of os]
      shutdown_logger[OF assms(2), of os action delay]
    by (intro conjI) (erule conjE, assumption)+
qed

text \<open>
  The controller without a logger and the same controller with one, on a sink that
  returns: the results agree, and only the second run leaves a record.
\<close>

theorem logger_independent_witness:
  "(\<forall>h l lvl msg. returning_sink h l lvl msg = None) \<and>
   same_but_logger (fresh demo_controller) (fresh logged_controller) \<and>
   fst (stop_game_with returning_sink two_games_os (fresh demo_controller)) = Inr True \<and>
   fst (stop_game_with returning_sink two_games_os (fresh logged_controller)) = Inr True \<and>
   logs (snd (stop_game_with returning_sink two_games_os (fresh demo_controller))) = [] \<and>
   logs (snd (stop_game_with returning_sink two_games_os (fresh logged_controller))) =
     [(Logger ''m7a'', INFO, MsgGameStopped ''StarRail.exe'')]"
  using logger_independent[where sk = returning_sink and ?s1.0 = "fresh demo_controller"
      and ?s2.0 = "fresh logged_controller" and os = two_games_os and action = "''Sleep''"
      and delay = 0]
  by (simp add: op_with_defs op_defs demo_defs prog_defs call_defs log_with_defs
        same_but_logger_def identity_def)

text \<open>
  C10 as stated fails for a sink that raises: without a logger \<^verbatim>\<open>start_game\<close> on a missing
  path returns false; with a logger whose \<^verbatim>\<open>error\<close> raises, the exception leaves
  \<^verbatim>\<open>start_game\<close>, which has no handler. The two runs differ in the logger only.
\<close>

theorem logger_failure_changes_result:
  "same_but_logger (fresh demo_controller) (fresh logged_controller) \<and>
   fst (start_game_with failing_sink quiet_os (fresh demo_controller)) = Inr False \<and>
   fst (start_game_with failing_sink quiet_os (fresh logged_controller)) = Inl OSError \<and>
   trace (snd (start_game_with failing_sink quiet_os (fresh demo_controller))) =
     trace (snd (start_game_with failing_sink quiet_os (fresh logged_controller)))"
  by (simp add: op_with_defs op_defs demo_defs prog_defs call_defs log_with_defs
        same_but_logger_def identity_def)

end
